theory Spec2Isabelle
  imports Complex_Main
begin

section \<open>Floating-point step times\<close>

text \<open>
  The field \<open>AxisStepper::time\<close> is a C++ \<open>float\<close>. The selection code only compares
  such values (\<open><=\<close>, \<open><\<close>) and tests them with \<open>std::isnan\<close>, and its own comment
  says that a time "can be finite, infinite, or NaN". A \<open>float\<close> is therefore one of:
  not-a-number, minus infinity, a finite value, plus infinity. The finite values are
  carried as reals (every binary32 value is one; the two zeros compare equal and are
  both \<open>Finite 0\<close>). No arithmetic on floats is modelled: the code under study does none.
\<close>

datatype float = NaN | NegInf | Finite real | PosInf

text \<open>\<open>std::isnan\<close>.\<close>

fun isnan :: "float \<Rightarrow> bool" where
  "isnan NaN = True"
| "isnan _ = False"

text \<open>The C++ operator \<open><=\<close> on floats: false as soon as one operand is NaN.\<close>

fun float_le :: "float \<Rightarrow> float \<Rightarrow> bool" where
  "float_le NaN _ = False"
| "float_le _ NaN = False"
| "float_le NegInf _ = True"
| "float_le _ PosInf = True"
| "float_le (Finite x) (Finite y) = (x \<le> y)"
| "float_le (Finite x) NegInf = False"
| "float_le PosInf _ = False"

text \<open>The C++ operator \<open><\<close> on floats: false as soon as one operand is NaN.\<close>

fun float_lt :: "float \<Rightarrow> float \<Rightarrow> bool" where
  "float_lt NaN _ = False"
| "float_lt _ NaN = False"
| "float_lt PosInf _ = False"
| "float_lt _ NegInf = False"
| "float_lt (Finite x) (Finite y) = (x < y)"
| "float_lt NegInf _ = True"
| "float_lt (Finite x) PosInf = True"

text \<open>The three kinds of time the selection distinguishes.\<close>

definition non_positive :: "float \<Rightarrow> bool" where
  "non_positive t = float_le t (Finite 0)"

definition positive :: "float \<Rightarrow> bool" where
  "positive t = float_lt (Finite 0) t"

fun finite_positive :: "float \<Rightarrow> bool" where
  "finite_positive (Finite x) = (0 < x)"
| "finite_positive _ = False"

section \<open>The axis stepper\<close>

datatype StepDirection = StepBackward | StepForward

text \<open>
  The base class \<open>AxisStepper\<close>: the private \<open>_index\<close> (read through \<open>index()\<close>, an
  \<open>int\<close>), and the public \<open>time\<close> and \<open>direction\<close>. A derived stepper adds its own
  fields: it is an \<open>'a AxisStepper_scheme\<close>.
\<close>

record AxisStepper =
  index :: int
  time :: float
  direction :: StepDirection

datatype error = AssertionFailed

text \<open>
  \<open>AxisStepper::_nextStep\<close> of the base class, which every child has to replace:
  its body is \<open>assert(false && "... must be overriden in any child classes")\<close>.
\<close>

definition AxisStepper_base_nextStep ::
  "bool \<Rightarrow> 'a AxisStepper_scheme \<Rightarrow> error + 'a AxisStepper_scheme" where
  "AxisStepper_base_nextStep useEndstops this = Inl AssertionFailed"

section \<open>Selecting the next axis\<close>

text \<open>
  \<open>_AxisStepper__getNextTime<TupleT, idx>\<close>. The tuple of steppers is a list; the
  reference the C++ returns is the tuple position of the stepper it refers to.
  \<open>idx = 0\<close> is the specialisation that returns \<open>std::get<0>(axes)\<close>.
\<close>

fun AxisStepper__getNextTime :: "'a AxisStepper_scheme list \<Rightarrow> nat \<Rightarrow> nat" where
  "AxisStepper__getNextTime axes 0 = 0"
| "AxisStepper__getNextTime axes (Suc idx) =
     (let m1 = AxisStepper__getNextTime axes idx;
          m2 = Suc idx
      in if float_le (time (axes ! m1)) (Finite 0) then m2
         else if float_le (time (axes ! m2)) (Finite 0) then m1
         else if float_lt (time (axes ! m1)) (time (axes ! m2)) \<or> isnan (time (axes ! m2))
              then m1 else m2)"

text \<open>
  \<open>AxisStepper::getNextTime\<close> starts the scan at \<open>std::tuple_size<TupleT>::value - 1\<close>.
  An empty tuple does not instantiate (the start index would be negative), so the
  function is only meant on a non-empty list.
\<close>

definition getNextTime :: "'a AxisStepper_scheme list \<Rightarrow> nat" where
  "getNextTime axes = AxisStepper__getNextTime axes (length axes - 1)"

section \<open>Calling a functor on every tuple element\<close>

text \<open>
  Modelled from the spec: \<open>callOnAll\<close> of \<open>common/tupleutil.h\<close> is not among the
  sources. The spec describes its two uses as "a single pass that checks each axis's
  identity against the target" and as calling the initialisation "on every axis in the
  set, in any order". So \<open>callOnAll(t, f, args...)\<close> calls \<open>f(i, std::get<i>(t), args...)\<close>
  once for every tuple position \<open>i\<close>. The functor gets the element by reference: here
  it gets the position and the tuple and returns the tuple it leaves behind. The pass is
  taken in ascending order of position, and a failed assertion ends it.
\<close>

fun callOnAll_upto ::
  "nat \<Rightarrow> (nat \<Rightarrow> 's list \<Rightarrow> error + 's list) \<Rightarrow> 's list \<Rightarrow> error + 's list" where
  "callOnAll_upto 0 f t = Inr t"
| "callOnAll_upto (Suc n) f t =
     (case callOnAll_upto n f t of Inl e \<Rightarrow> Inl e | Inr t' \<Rightarrow> f n t')"

definition callOnAll ::
  "'s list \<Rightarrow> (nat \<Rightarrow> 's list \<Rightarrow> error + 's list) \<Rightarrow> error + 's list" where
  "callOnAll t f = callOnAll_upto (length t) f t"

section \<open>Advancing one axis\<close>

text \<open>
  The children of \<open>AxisStepper\<close> are not among the sources. Their methods are
  parameters of the model, one per tuple position (each position has its own static
  type): \<open>step i\<close> is the \<open>_nextStep\<close> of the stepper type at position \<open>i\<close>, which
  may fail an assertion as the base class's one does; \<open>beginLine i\<close> and
  \<open>beginArc i\<close> are its two initialisers. Each acts on its own stepper only.
\<close>

text \<open>
  The functor \<open>_AxisStepper__nextStep\<close>, with the arguments in the order of the source:
  \<open>myIdx\<close>, the stepper (position \<open>myIdx\<close> of \<open>axes\<close>), \<open>desiredIdx\<close>, \<open>useEndstops\<close>.
\<close>

definition AxisStepper__nextStep ::
  "(nat \<Rightarrow> bool \<Rightarrow> 's \<Rightarrow> error + 's) \<Rightarrow> nat \<Rightarrow> 's list \<Rightarrow> nat \<Rightarrow> bool \<Rightarrow> error + 's list" where
  "AxisStepper__nextStep step myIdx axes desiredIdx useEndstops =
     (if desiredIdx = myIdx then
        (case step myIdx useEndstops (axes ! myIdx) of
           Inl e \<Rightarrow> Inl e
         | Inr stepper \<Rightarrow> Inr (axes[myIdx := stepper]))
      else Inr axes)"

text \<open>
  \<open>this->index()\<close> is an \<open>int\<close> and the functor's \<open>desiredIdx\<close> a \<open>std::size_t\<close>: the
  conversion wraps modulo \<open>2 ^ w\<close>, \<open>w\<close> the width of \<open>std::size_t\<close> on the target.
\<close>

definition to_size_t :: "nat \<Rightarrow> int \<Rightarrow> nat" where
  "to_size_t w i = nat (i mod 2 ^ w)"

text \<open>\<open>AxisStepper::nextStep\<close>, called on the stepper \<open>this\<close>.\<close>

definition nextStep ::
  "nat \<Rightarrow> (nat \<Rightarrow> bool \<Rightarrow> 'a AxisStepper_scheme \<Rightarrow> error + 'a AxisStepper_scheme) \<Rightarrow>
   'a AxisStepper_scheme \<Rightarrow> 'a AxisStepper_scheme list \<Rightarrow> bool \<Rightarrow>
   error + 'a AxisStepper_scheme list" where
  "nextStep w step this axes useEndstops =
     callOnAll axes
       (\<lambda>myIdx t. AxisStepper__nextStep step myIdx t (to_size_t w (index this)) useEndstops)"

section \<open>Initialising the axes for a move\<close>

text \<open>
  The functor \<open>_AxisStepper__initAxisSteppers\<close>: \<open>beginLine\<close>, then \<open>_nextStep\<close>, both on
  \<open>std::get<MyIdx>(*steppers)\<close>. \<open>Vector4f\<close> and the coordinate map are types declared
  elsewhere; \<open>curPos\<close> is an array of \<open>int\<close>.
\<close>

definition AxisStepper__initAxisSteppers ::
  "(nat \<Rightarrow> 'm \<Rightarrow> int list \<Rightarrow> 'v4 \<Rightarrow> 's \<Rightarrow> 's) \<Rightarrow> (nat \<Rightarrow> bool \<Rightarrow> 's \<Rightarrow> error + 's) \<Rightarrow>
   nat \<Rightarrow> 's list \<Rightarrow> bool \<Rightarrow> 'm \<Rightarrow> int list \<Rightarrow> 'v4 \<Rightarrow> error + 's list" where
  "AxisStepper__initAxisSteppers beginLine step MyIdx steppers useEndstops cmap curPos vel =
     (let steppers1 = steppers[MyIdx := beginLine MyIdx cmap curPos vel (steppers ! MyIdx)]
      in case step MyIdx useEndstops (steppers1 ! MyIdx) of
           Inl e \<Rightarrow> Inl e
         | Inr stepper \<Rightarrow> Inr (steppers1[MyIdx := stepper]))"

text \<open>The functor \<open>_AxisStepper__initAxisArcSteppers\<close>: the same with \<open>beginArc\<close>.\<close>

definition AxisStepper__initAxisArcSteppers ::
  "(nat \<Rightarrow> 'm \<Rightarrow> int list \<Rightarrow> 'v3 \<Rightarrow> 'v3 \<Rightarrow> 'v3 \<Rightarrow> float \<Rightarrow> float \<Rightarrow> float \<Rightarrow> 's \<Rightarrow> 's) \<Rightarrow>
   (nat \<Rightarrow> bool \<Rightarrow> 's \<Rightarrow> error + 's) \<Rightarrow>
   nat \<Rightarrow> 's list \<Rightarrow> bool \<Rightarrow> 'm \<Rightarrow> int list \<Rightarrow> 'v3 \<Rightarrow> 'v3 \<Rightarrow> 'v3 \<Rightarrow> float \<Rightarrow> float \<Rightarrow> float \<Rightarrow>
   error + 's list" where
  "AxisStepper__initAxisArcSteppers beginArc step MyIdx steppers useEndstops cmap curPos
       center u v arcRad arcVel extVel =
     (let steppers1 =
            steppers[MyIdx := beginArc MyIdx cmap curPos center u v arcRad arcVel extVel
                                (steppers ! MyIdx)]
      in case step MyIdx useEndstops (steppers1 ! MyIdx) of
           Inl e \<Rightarrow> Inl e
         | Inr stepper \<Rightarrow> Inr (steppers1[MyIdx := stepper]))"

text \<open>\<open>AxisStepper::initAxisSteppers\<close> and \<open>AxisStepper::initAxisArcSteppers\<close>.\<close>

definition initAxisSteppers ::
  "(nat \<Rightarrow> 'm \<Rightarrow> int list \<Rightarrow> 'v4 \<Rightarrow> 's \<Rightarrow> 's) \<Rightarrow> (nat \<Rightarrow> bool \<Rightarrow> 's \<Rightarrow> error + 's) \<Rightarrow>
   's list \<Rightarrow> bool \<Rightarrow> 'm \<Rightarrow> int list \<Rightarrow> 'v4 \<Rightarrow> error + 's list" where
  "initAxisSteppers beginLine step steppers useEndstops cmap curPos vel =
     callOnAll steppers
       (\<lambda>MyIdx t. AxisStepper__initAxisSteppers beginLine step MyIdx t useEndstops cmap curPos vel)"

definition initAxisArcSteppers ::
  "(nat \<Rightarrow> 'm \<Rightarrow> int list \<Rightarrow> 'v3 \<Rightarrow> 'v3 \<Rightarrow> 'v3 \<Rightarrow> float \<Rightarrow> float \<Rightarrow> float \<Rightarrow> 's \<Rightarrow> 's) \<Rightarrow>
   (nat \<Rightarrow> bool \<Rightarrow> 's \<Rightarrow> error + 's) \<Rightarrow>
   's list \<Rightarrow> bool \<Rightarrow> 'm \<Rightarrow> int list \<Rightarrow> 'v3 \<Rightarrow> 'v3 \<Rightarrow> 'v3 \<Rightarrow> float \<Rightarrow> float \<Rightarrow> float \<Rightarrow>
   error + 's list" where
  "initAxisArcSteppers beginArc step steppers useEndstops cmap curPos
       center u v arcRad arcVel extVel =
     callOnAll steppers
       (\<lambda>MyIdx t. AxisStepper__initAxisArcSteppers beginArc step MyIdx t useEndstops cmap curPos
                     center u v arcRad arcVel extVel)"

section \<open>The hardware scheduler\<close>

text \<open>
  \<open>DumbHardwareScheduler::schedTime\<close>. \<open>EventClockT::time_point\<close> is declared elsewhere;
  it is a point on an ordered time line.
\<close>

definition schedTime :: "'t::linorder \<Rightarrow> 't" where
  "schedTime evtTime = evtTime"

section \<open>What the scan selects\<close>

text \<open>
  The outcome of the scan over the positions \<open>0..k\<close>, used to state its result:
  position \<open>r\<close> holds a positive time (greater than zero, hence not NaN), no positive
  time among them is smaller, and every positive time at a later position is strictly
  greater. So \<open>r\<close> is the last position that holds the least positive time.
\<close>

definition last_least :: "'a AxisStepper_scheme list \<Rightarrow> nat \<Rightarrow> nat \<Rightarrow> bool" where
  "last_least axes k r \<longleftrightarrow>
     r \<le> k \<and> positive (time (axes ! r)) \<and>
     (\<forall>i\<le>k. positive (time (axes ! i)) \<longrightarrow> float_le (time (axes ! r)) (time (axes ! i))) \<and>
     (\<forall>i\<le>k. r < i \<longrightarrow> positive (time (axes ! i)) \<longrightarrow> float_lt (time (axes ! r)) (time (axes ! i)))"

section \<open>Facts about float comparison\<close>

lemma finite_positive_not_le: "finite_positive t \<Longrightarrow> \<not> float_le t (Finite 0)"
  by (cases t) auto

lemma positive_iff: "positive t \<longleftrightarrow> \<not> isnan t \<and> \<not> float_le t (Finite 0)"
  by (cases t) (auto simp: positive_def)

lemma float_lt_imp_le: "float_lt a b \<Longrightarrow> float_le a b"
  by (cases a; cases b) auto

lemma float_le_refl: "\<not> isnan a \<Longrightarrow> float_le a a"
  by (cases a) auto

lemma float_le_trans: "float_le a b \<Longrightarrow> float_le b c \<Longrightarrow> float_le a c"
  by (cases a; cases b; cases c) auto

lemma float_not_lt: "\<not> isnan a \<Longrightarrow> \<not> isnan b \<Longrightarrow> \<not> float_lt a b \<Longrightarrow> float_le b a"
  by (cases a; cases b) auto

lemma float_le_antisym: "float_le a b \<Longrightarrow> float_le b a \<Longrightarrow> a = b"
  by (cases a; cases b) auto

lemma float_lt_irrefl: "\<not> float_lt a a"
  by (cases a) auto

lemma finite_positive_positive: "finite_positive t \<Longrightarrow> positive t"
  by (cases t) (auto simp: positive_def)

section \<open>Selection over one and two axes\<close>

text \<open>
  C10. Over a single-axis set, \<open>getNextTime\<close> returns that axis (tuple position 0)
  whatever its time is: finite, non-positive, infinite or NaN.
\<close>

theorem getNextTime_single: "getNextTime [a] = 0 \<and> [a] ! getNextTime [a] = a"
  by (simp add: getNextTime_def)

text \<open>
  C1. Over a two-axis set whose times are finite, positive and distinct, \<open>getNextTime\<close>
  returns the axis with the smaller time, in both tuple orders.
\<close>

theorem getNextTime_two_smaller:
  assumes "time a = Finite x" and "time b = Finite y"
    and "0 < x" and "0 < y" and "x \<noteq> y"
  shows "getNextTime [a, b] = (if x < y then 0 else 1)
       \<and> getNextTime [b, a] = (if x < y then 1 else 0)
       \<and> [a, b] ! getNextTime [a, b] = (if x < y then a else b)
       \<and> [b, a] ! getNextTime [b, a] = (if x < y then a else b)"
  using assms by (auto simp add: getNextTime_def Let_def)

theorem getNextTime_two_smaller_witness:
  "getNextTime [\<lparr>index = 0, time = Finite 1, direction = StepForward\<rparr>,
                \<lparr>index = 1, time = Finite 2, direction = StepBackward\<rparr>] = 0
   \<and> getNextTime [\<lparr>index = 1, time = Finite 2, direction = StepBackward\<rparr>,
                  \<lparr>index = 0, time = Finite 1, direction = StepForward\<rparr>] = 1"
  using getNextTime_two_smaller
    [of "\<lparr>index = 0, time = Finite 1, direction = StepForward\<rparr>" 1
        "\<lparr>index = 1, time = Finite 2, direction = StepBackward\<rparr>" 2]
  by simp

text \<open>
  C4. Over a two-axis set where one time is non-positive (zero, negative or minus
  infinity) and the other is finite and positive, \<open>getNextTime\<close> returns the axis with
  the finite positive time, in both tuple orders.
\<close>

theorem getNextTime_two_non_positive:
  assumes "non_positive (time a)" and "finite_positive (time b)"
  shows "getNextTime [a, b] = 1 \<and> [a, b] ! getNextTime [a, b] = b
       \<and> getNextTime [b, a] = 0 \<and> [b, a] ! getNextTime [b, a] = b"
  using assms finite_positive_not_le [of "time b"]
  by (simp add: getNextTime_def Let_def non_positive_def)

theorem getNextTime_two_non_positive_witness:
  "getNextTime [\<lparr>index = 0, time = Finite (- 1), direction = StepForward\<rparr>,
                \<lparr>index = 1, time = Finite 2, direction = StepBackward\<rparr>] = 1
   \<and> getNextTime [\<lparr>index = 1, time = Finite 2, direction = StepBackward\<rparr>,
                  \<lparr>index = 0, time = Finite (- 1), direction = StepForward\<rparr>] = 0"
  using getNextTime_two_non_positive
    [of "\<lparr>index = 0, time = Finite (- 1), direction = StepForward\<rparr>"
        "\<lparr>index = 1, time = Finite 2, direction = StepBackward\<rparr>"]
  by (simp add: non_positive_def)

text \<open>
  C5. Over a two-axis set where one time is NaN and the other is finite and positive,
  \<open>getNextTime\<close> returns the axis with the finite positive time, in both tuple orders.
\<close>

theorem getNextTime_two_nan:
  assumes "isnan (time a)" and "finite_positive (time b)"
  shows "getNextTime [a, b] = 1 \<and> [a, b] ! getNextTime [a, b] = b
       \<and> getNextTime [b, a] = 0 \<and> [b, a] ! getNextTime [b, a] = b"
proof -
  from assms(1) have a: "time a = NaN" by (cases "time a") auto
  from assms(2) obtain y where b: "time b = Finite y" "0 < y"
    by (cases "time b") auto
  from b(2) have "\<not> y \<le> 0" by simp
  then show ?thesis by (simp add: getNextTime_def Let_def a b(1))
qed

theorem getNextTime_two_nan_witness:
  "getNextTime [\<lparr>index = 0, time = NaN, direction = StepForward\<rparr>,
                \<lparr>index = 1, time = Finite 2, direction = StepBackward\<rparr>] = 1
   \<and> getNextTime [\<lparr>index = 1, time = Finite 2, direction = StepBackward\<rparr>,
                  \<lparr>index = 0, time = NaN, direction = StepForward\<rparr>] = 0"
  using getNextTime_two_nan
    [of "\<lparr>index = 0, time = NaN, direction = StepForward\<rparr>"
        "\<lparr>index = 1, time = Finite 2, direction = StepBackward\<rparr>"]
  by simp

section \<open>Selection over any number of axes\<close>

lemma getNextTime_le: "AxisStepper__getNextTime axes k \<le> k"
  by (induction k) (auto simp: Let_def)

lemma last_least_keep:
  assumes "last_least axes k r"
    and "\<not> positive (time (axes ! Suc k)) \<or> float_lt (time (axes ! r)) (time (axes ! Suc k))"
  shows "last_least axes (Suc k) r"
  using assms unfolding last_least_def
  by (auto simp: le_Suc_eq float_lt_imp_le)

lemma last_least_take:
  assumes "last_least axes k r" and "positive (time (axes ! Suc k))"
    and "\<not> float_lt (time (axes ! r)) (time (axes ! Suc k))"
  shows "last_least axes (Suc k) (Suc k)"
proof -
  have nn: "\<not> isnan (time (axes ! r))" "\<not> isnan (time (axes ! Suc k))"
    using assms by (auto simp: last_least_def positive_iff)
  then have le: "float_le (time (axes ! Suc k)) (time (axes ! r))"
    using assms(3) by (rule float_not_lt)
  show ?thesis
    using assms(1,2) le nn unfolding last_least_def
    by (auto simp: le_Suc_eq float_le_refl intro: float_le_trans)
qed

lemma last_least_first:
  assumes "\<forall>i\<le>k. \<not> positive (time (axes ! i))" and "positive (time (axes ! Suc k))"
  shows "last_least axes (Suc k) (Suc k)"
  using assms unfolding last_least_def
  by (auto simp: le_Suc_eq positive_iff float_le_refl)

lemma getNextTime_last_least:
  "\<exists>i\<le>k. positive (time (axes ! i)) \<Longrightarrow> last_least axes k (AxisStepper__getNextTime axes k)"
proof (induction k)
  case 0
  then show ?case by (auto simp: last_least_def positive_iff float_le_refl)
next
  case (Suc k)
  let ?r = "AxisStepper__getNextTime axes k"
  show ?case
  proof (cases "\<exists>i\<le>k. positive (time (axes ! i))")
    case True
    then have ll: "last_least axes k ?r" by (rule Suc.IH)
    then have pr: "\<not> float_le (time (axes ! ?r)) (Finite 0)"
      by (simp add: last_least_def positive_iff)
    show ?thesis
    proof (cases "positive (time (axes ! Suc k))")
      case False
      then have "float_le (time (axes ! Suc k)) (Finite 0) \<or> isnan (time (axes ! Suc k))"
        by (auto simp: positive_iff)
      moreover have "last_least axes (Suc k) ?r" using ll False by (simp add: last_least_keep)
      ultimately show ?thesis using pr by (auto simp: Let_def)
    next
      case pos: True
      then have m2: "\<not> float_le (time (axes ! Suc k)) (Finite 0)" "\<not> isnan (time (axes ! Suc k))"
        by (auto simp: positive_iff)
      show ?thesis
      proof (cases "float_lt (time (axes ! ?r)) (time (axes ! Suc k))")
        case True
        then have "last_least axes (Suc k) ?r" using ll by (simp add: last_least_keep)
        then show ?thesis using pr m2 True by (simp add: Let_def)
      next
        case False
        then have "last_least axes (Suc k) (Suc k)" using ll pos by (simp add: last_least_take)
        then show ?thesis using pr m2 False by (simp add: Let_def)
      qed
    qed
  next
    case none: False
    with Suc.prems have pos: "positive (time (axes ! Suc k))"
      by (auto simp: le_Suc_eq)
    then have m2: "\<not> float_le (time (axes ! Suc k)) (Finite 0)" "\<not> isnan (time (axes ! Suc k))"
      by (auto simp: positive_iff)
    have "?r \<le> k" by (rule getNextTime_le)
    with none have "\<not> positive (time (axes ! ?r))" by blast
    then have r: "float_le (time (axes ! ?r)) (Finite 0) \<or> isnan (time (axes ! ?r))"
      by (auto simp: positive_iff)
    have nlt: "isnan (time (axes ! ?r)) \<Longrightarrow> \<not> float_lt (time (axes ! ?r)) (time (axes ! Suc k))"
      by (cases "time (axes ! ?r)") auto
    have "last_least axes (Suc k) (Suc k)" using none pos by (simp add: last_least_first)
    then show ?thesis using r m2 nlt by (auto simp: Let_def)
  qed
qed

lemma getNextTime_selects:
  assumes "i < length axes" and "positive (time (axes ! i))"
  shows "last_least axes (length axes - 1) (getNextTime axes)"
proof -
  from assms have "\<exists>j\<le>length axes - 1. positive (time (axes ! j))"
    by (intro exI [of _ i]) simp
  then show ?thesis unfolding getNextTime_def by (rule getNextTime_last_least)
qed

text \<open>
  C2, as stated, fails: two axes that share the least finite positive time, and
  \<open>getNextTime\<close> returns the one at tuple position 1, not the one at position 0.
\<close>

theorem getNextTime_tie_counterexample:
  "finite_positive (time \<lparr>index = 0, time = Finite 1, direction = StepForward\<rparr>)
   \<and> time \<lparr>index = 0, time = Finite 1, direction = StepForward\<rparr>
       = time \<lparr>index = 1, time = Finite 1, direction = StepForward\<rparr>
   \<and> getNextTime [\<lparr>index = 0, time = Finite 1, direction = StepForward\<rparr>,
                  \<lparr>index = 1, time = Finite 1, direction = StepForward\<rparr>] = 1
   \<and> getNextTime [\<lparr>index = 0, time = Finite 1, direction = StepForward\<rparr>,
                  \<lparr>index = 1, time = Finite 1, direction = StepForward\<rparr>] \<noteq> 0"
  by (simp add: getNextTime_def)

text \<open>
  C2, amended. In every axis set, if the axis at position \<open>i\<close> holds a finite positive
  time, no axis holds a smaller positive time, and no axis at a higher position holds
  the same time, then \<open>getNextTime\<close> returns position \<open>i\<close>: among the axes tied for
  the least finite positive time, the one at the highest tuple position is returned.
\<close>

theorem getNextTime_tie_highest:
  assumes "i < length axes" and "finite_positive (time (axes ! i))"
    and least: "\<forall>j<length axes. positive (time (axes ! j)) \<longrightarrow>
                  float_le (time (axes ! i)) (time (axes ! j))"
    and highest: "\<forall>j<length axes. i < j \<longrightarrow> time (axes ! j) \<noteq> time (axes ! i)"
  shows "getNextTime axes = i"
proof -
  let ?r = "getNextTime axes"
  from assms(2) have pos: "positive (time (axes ! i))" by (rule finite_positive_positive)
  with assms(1) have sel: "last_least axes (length axes - 1) ?r" by (rule getNextTime_selects)
  from assms(1) have i: "i \<le> length axes - 1" by simp
  from sel have "?r \<le> length axes - 1" by (simp add: last_least_def)
  with assms(1) have r: "?r < length axes" by linarith
  from sel have pr: "positive (time (axes ! ?r))" by (simp add: last_least_def)
  from sel i pos have "float_le (time (axes ! ?r)) (time (axes ! i))"
    by (simp add: last_least_def)
  moreover from least r pr have "float_le (time (axes ! i)) (time (axes ! ?r))" by simp
  ultimately have eq: "time (axes ! ?r) = time (axes ! i)" by (rule float_le_antisym)
  have "\<not> i < ?r" using highest r eq by auto
  moreover have "\<not> ?r < i"
  proof
    assume "?r < i"
    with sel i pos have "float_lt (time (axes ! ?r)) (time (axes ! i))"
      by (simp add: last_least_def)
    then show False by (simp add: eq float_lt_irrefl)
  qed
  ultimately show ?thesis by simp
qed

theorem getNextTime_tie_highest_witness:
  "getNextTime [\<lparr>index = 0, time = Finite 2, direction = StepForward\<rparr>,
                \<lparr>index = 1, time = Finite 1, direction = StepForward\<rparr>,
                \<lparr>index = 2, time = Finite 1, direction = StepBackward\<rparr>] = 2"
  using getNextTime_tie_highest
    [of 2 "[\<lparr>index = 0, time = Finite 2, direction = StepForward\<rparr>,
            \<lparr>index = 1, time = Finite 1, direction = StepForward\<rparr>,
            \<lparr>index = 2, time = Finite 1, direction = StepBackward\<rparr>]"]
  by (simp add: less_Suc_eq)

text \<open>
  C3, as stated, fails: a NaN axis is returned although the other axis of the set is
  not NaN, when that other time is non-positive (here zero), in either tuple order.
\<close>

theorem getNextTime_nan_counterexample:
  "\<not> isnan (time \<lparr>index = 1, time = Finite 0, direction = StepForward\<rparr>)
   \<and> isnan (time ([\<lparr>index = 0, time = NaN, direction = StepForward\<rparr>,
                    \<lparr>index = 1, time = Finite 0, direction = StepForward\<rparr>]
                   ! getNextTime [\<lparr>index = 0, time = NaN, direction = StepForward\<rparr>,
                                  \<lparr>index = 1, time = Finite 0, direction = StepForward\<rparr>]))
   \<and> isnan (time ([\<lparr>index = 1, time = Finite 0, direction = StepForward\<rparr>,
                    \<lparr>index = 0, time = NaN, direction = StepForward\<rparr>]
                   ! getNextTime [\<lparr>index = 1, time = Finite 0, direction = StepForward\<rparr>,
                                  \<lparr>index = 0, time = NaN, direction = StepForward\<rparr>]))"
  by (simp add: getNextTime_def)

text \<open>
  C3, amended. In every axis set that contains an axis whose time is positive (greater
  than zero, so not NaN), \<open>getNextTime\<close> returns an axis whose time is positive and
  not NaN: NaN loses against every positive time.
\<close>

theorem getNextTime_never_nan:
  assumes "i < length axes" and "positive (time (axes ! i))"
  shows "positive (time (axes ! getNextTime axes)) \<and> \<not> isnan (time (axes ! getNextTime axes))"
proof -
  from assms have "last_least axes (length axes - 1) (getNextTime axes)"
    by (rule getNextTime_selects)
  then have "positive (time (axes ! getNextTime axes))" by (simp add: last_least_def)
  then show ?thesis by (simp add: positive_iff)
qed

theorem getNextTime_never_nan_witness:
  "\<not> isnan (time ([\<lparr>index = 0, time = NaN, direction = StepForward\<rparr>,
                    \<lparr>index = 1, time = Finite 3, direction = StepForward\<rparr>,
                    \<lparr>index = 2, time = Finite (- 1), direction = StepBackward\<rparr>]
                   ! getNextTime [\<lparr>index = 0, time = NaN, direction = StepForward\<rparr>,
                                  \<lparr>index = 1, time = Finite 3, direction = StepForward\<rparr>,
                                  \<lparr>index = 2, time = Finite (- 1), direction = StepBackward\<rparr>]))"
  using getNextTime_never_nan
    [of 1 "[\<lparr>index = 0, time = NaN, direction = StepForward\<rparr>,
            \<lparr>index = 1, time = Finite 3, direction = StepForward\<rparr>,
            \<lparr>index = 2, time = Finite (- 1), direction = StepBackward\<rparr>]"]
  by (simp add: positive_def)

section \<open>Advancing the selected axis\<close>

lemma nextStep_other: "desiredIdx \<noteq> myIdx \<Longrightarrow> AxisStepper__nextStep step myIdx t desiredIdx ue = Inr t"
  by (simp add: AxisStepper__nextStep_def)

lemma nextStep_same:
  "AxisStepper__nextStep step myIdx t myIdx ue =
     (case step myIdx ue (t ! myIdx) of Inl e \<Rightarrow> Inl e | Inr s \<Rightarrow> Inr (t[myIdx := s]))"
  by (simp add: AxisStepper__nextStep_def)

lemma nextStep_upto:
  "n \<le> length axes \<Longrightarrow>
   callOnAll_upto n (\<lambda>myIdx t. AxisStepper__nextStep step myIdx t d ue) axes =
     (if d < n then (case step d ue (axes ! d) of
                       Inl e \<Rightarrow> Inl e | Inr s \<Rightarrow> Inr (axes[d := s]))
      else Inr axes)"
proof (induction n)
  case 0
  then show ?case by simp
next
  case (Suc n)
  then have IH: "callOnAll_upto n (\<lambda>myIdx t. AxisStepper__nextStep step myIdx t d ue) axes =
     (if d < n then (case step d ue (axes ! d) of
                       Inl e \<Rightarrow> Inl e | Inr s \<Rightarrow> Inr (axes[d := s]))
      else Inr axes)" by simp
  consider "d < n" | "d = n" | "n < d" by linarith
  then show ?case
  proof cases
    case 1
    then show ?thesis by (simp add: IH nextStep_other split: sum.splits)
  next
    case 2
    show ?thesis unfolding callOnAll_upto.simps IH
      using 2 by (simp add: nextStep_same split: sum.splits)
  next
    case 3
    then show ?thesis by (simp add: IH nextStep_other)
  qed
qed

lemma nextStep_eq:
  "nextStep w step this axes ue =
     (if to_size_t w (index this) < length axes
      then (case step (to_size_t w (index this)) ue (axes ! to_size_t w (index this)) of
              Inl e \<Rightarrow> Inl e
            | Inr s \<Rightarrow> Inr (axes[to_size_t w (index this) := s]))
      else Inr axes)"
  by (simp add: nextStep_def callOnAll_def nextStep_upto)

text \<open>
  C6. \<open>nextStep\<close> leaves every axis whose tuple position differs from the target
  index as it was, the whole stepper and so its time and its direction: either the call
  returns a tuple of the same size with that axis unchanged, or the assertion that ended
  it was raised by the \<open>_nextStep\<close> of the targeted axis itself.
\<close>

theorem nextStep_frame:
  assumes "j < length axes" and "j \<noteq> to_size_t w (index this)"
  shows "case nextStep w step this axes useEndstops of
           Inr axes' \<Rightarrow> length axes' = length axes \<and> axes' ! j = axes ! j
             \<and> time (axes' ! j) = time (axes ! j)
             \<and> direction (axes' ! j) = direction (axes ! j)
         | Inl e \<Rightarrow> to_size_t w (index this) < length axes \<and>
                    step (to_size_t w (index this)) useEndstops
                         (axes ! to_size_t w (index this)) = Inl e"
  using assms by (simp add: nextStep_eq split: sum.splits)

theorem nextStep_frame_witness:
  "nextStep 32 (\<lambda>i useEndstops s. Inr (s\<lparr>time := Finite 5, direction := StepBackward\<rparr>))
     \<lparr>index = 1, time = Finite 2, direction = StepForward\<rparr>
     [\<lparr>index = 0, time = Finite 3, direction = StepForward\<rparr>,
      \<lparr>index = 1, time = Finite 2, direction = StepForward\<rparr>] True
   = Inr [\<lparr>index = 0, time = Finite 3, direction = StepForward\<rparr>,
          \<lparr>index = 1, time = Finite 5, direction = StepBackward\<rparr>]"
  using nextStep_frame
    [of 0 "[\<lparr>index = 0, time = Finite 3, direction = StepForward\<rparr>,
            \<lparr>index = 1, time = Finite 2, direction = StepForward\<rparr>]"
        32 "\<lparr>index = 1, time = Finite 2, direction = StepForward\<rparr>"
        "\<lambda>i useEndstops s. Inr (s\<lparr>time := Finite 5, direction := StepBackward\<rparr>)" True]
  by (simp add: nextStep_eq to_size_t_def)

text \<open>
  C7, as stated, fails: the steppers of this tuple carry the indices 5 and 6, so the
  index of the first matches no tuple position, and \<open>nextStep\<close> on it returns normally,
  with the tuple as it was, instead of failing an assertion.
\<close>

theorem nextStep_invalid_index_counterexample:
  "\<not> to_size_t 32 (index \<lparr>index = 5, time = Finite 2, direction = StepForward\<rparr>)
       < length [\<lparr>index = 5, time = Finite 2, direction = StepForward\<rparr>,
                 \<lparr>index = 6, time = Finite 3, direction = StepForward\<rparr>]
   \<and> nextStep 32 (\<lambda>i useEndstops s. Inr (s\<lparr>time := Finite 5\<rparr>))
       \<lparr>index = 5, time = Finite 2, direction = StepForward\<rparr>
       [\<lparr>index = 5, time = Finite 2, direction = StepForward\<rparr>,
        \<lparr>index = 6, time = Finite 3, direction = StepForward\<rparr>] True
     = Inr [\<lparr>index = 5, time = Finite 2, direction = StepForward\<rparr>,
            \<lparr>index = 6, time = Finite 3, direction = StepForward\<rparr>]
   \<and> nextStep 32 (\<lambda>i useEndstops s. Inr (s\<lparr>time := Finite 5\<rparr>))
       \<lparr>index = 5, time = Finite 2, direction = StepForward\<rparr>
       [\<lparr>index = 5, time = Finite 2, direction = StepForward\<rparr>,
        \<lparr>index = 6, time = Finite 3, direction = StepForward\<rparr>] True
     \<noteq> Inl AssertionFailed"
  by (simp add: nextStep_eq to_size_t_def)

text \<open>
  C7, amended. Calling \<open>nextStep\<close> with an axis index that matches no tuple position
  completes normally as a no-op: no assertion fails and the axis set is returned
  unchanged.
\<close>

theorem nextStep_no_match:
  assumes "\<not> to_size_t w (index this) < length axes"
  shows "nextStep w step this axes useEndstops = Inr axes"
  using assms by (simp add: nextStep_eq)

theorem nextStep_no_match_witness:
  "nextStep 32 (\<lambda>i useEndstops s. AxisStepper_base_nextStep useEndstops s)
     \<lparr>index = - 1, time = Finite 2, direction = StepForward\<rparr>
     [\<lparr>index = 0, time = Finite 2, direction = StepForward\<rparr>,
      \<lparr>index = 1, time = Finite 3, direction = StepForward\<rparr>] False
   = Inr [\<lparr>index = 0, time = Finite 2, direction = StepForward\<rparr>,
          \<lparr>index = 1, time = Finite 3, direction = StepForward\<rparr>]"
  using nextStep_no_match
    [of 32 "\<lparr>index = - 1, time = Finite 2, direction = StepForward\<rparr>"
        "[\<lparr>index = 0, time = Finite 2, direction = StepForward\<rparr>,
          \<lparr>index = 1, time = Finite 3, direction = StepForward\<rparr>]"
        "\<lambda>i useEndstops s. AxisStepper_base_nextStep useEndstops s" False]
  by (simp add: to_size_t_def)

section \<open>Initialisation reaches every axis\<close>

lemma callOnAll_upto_each:
  assumes "n \<le> length axes"
    and "\<And>i t. i < n \<Longrightarrow> length t = length axes \<Longrightarrow> t ! i = axes ! i \<Longrightarrow> f i t = Inr (t[i := g i])"
  shows "callOnAll_upto n f axes = Inr (map g [0..<n] @ drop n axes)"
  using assms
proof (induction n)
  case 0
  then show ?case by simp
next
  case (Suc n)
  let ?t = "map g [0..<n] @ drop n axes"
  from Suc have IH: "callOnAll_upto n f axes = Inr ?t" by simp
  from Suc.prems(1) have n: "n < length axes" by simp
  then have len: "length ?t = length axes" by simp
  have nth: "?t ! n = axes ! n" using n by (simp add: nth_append)
  have "f n ?t = Inr (?t[n := g n])" using Suc.prems(2) [OF _ len nth] by simp
  moreover have "?t[n := g n] = map g [0..<Suc n] @ drop (Suc n) axes"
    using n by (simp add: list_update_append Cons_nth_drop_Suc [symmetric])
  ultimately show ?case by (simp add: IH)
qed

lemma initAxisSteppers_eq:
  assumes "\<forall>i<length steppers.
             step i useEndstops (beginLine i cmap curPos vel (steppers ! i)) = Inr (g i)"
  shows "initAxisSteppers beginLine step steppers useEndstops cmap curPos vel =
           Inr (map g [0..<length steppers])"
proof -
  have "callOnAll_upto (length steppers)
          (\<lambda>MyIdx t. AxisStepper__initAxisSteppers beginLine step MyIdx t useEndstops cmap curPos vel)
          steppers = Inr (map g [0..<length steppers] @ drop (length steppers) steppers)"
    by (rule callOnAll_upto_each) (use assms in \<open>simp_all add: AxisStepper__initAxisSteppers_def\<close>)
  then show ?thesis by (simp add: initAxisSteppers_def callOnAll_def)
qed

lemma initAxisArcSteppers_eq:
  assumes "\<forall>i<length steppers.
             step i useEndstops
               (beginArc i cmap curPos center u v arcRad arcVel extVel (steppers ! i)) = Inr (g i)"
  shows "initAxisArcSteppers beginArc step steppers useEndstops cmap curPos
           center u v arcRad arcVel extVel = Inr (map g [0..<length steppers])"
proof -
  have "callOnAll_upto (length steppers)
          (\<lambda>MyIdx t. AxisStepper__initAxisArcSteppers beginArc step MyIdx t useEndstops cmap curPos
                        center u v arcRad arcVel extVel)
          steppers = Inr (map g [0..<length steppers] @ drop (length steppers) steppers)"
    by (rule callOnAll_upto_each) (use assms in \<open>simp_all add: AxisStepper__initAxisArcSteppers_def\<close>)
  then show ?thesis by (simp add: initAxisArcSteppers_def callOnAll_def)
qed

text \<open>
  C8. \<open>initAxisSteppers\<close> runs, on every axis of the set, \<open>beginLine\<close> and then
  \<open>_nextStep\<close> with the given \<open>useEndstops\<close>: when these first steps succeed, it
  returns the set in which the axis at each position \<open>i\<close> is the result of that step
  on the result of its \<open>beginLine\<close>. \<open>initAxisArcSteppers\<close> does the same with
  \<open>beginArc\<close>.
\<close>

theorem initAxisSteppers_every_axis:
  "((\<forall>i<length steppers.
       step i useEndstops (beginLine i cmap curPos vel (steppers ! i)) = Inr (l i)) \<longrightarrow>
    initAxisSteppers beginLine step steppers useEndstops cmap curPos vel =
      Inr (map l [0..<length steppers]))
   \<and> ((\<forall>i<length steppers.
          step i useEndstops
            (beginArc i cmap curPos center u v arcRad arcVel extVel (steppers ! i)) = Inr (a i)) \<longrightarrow>
       initAxisArcSteppers beginArc step steppers useEndstops cmap curPos
         center u v arcRad arcVel extVel = Inr (map a [0..<length steppers]))"
  by (simp add: initAxisSteppers_eq initAxisArcSteppers_eq)

theorem initAxisSteppers_every_axis_witness:
  "initAxisSteppers (\<lambda>i (m :: unit) p (vel :: unit) s. s\<lparr>direction := StepForward\<rparr>)
     (\<lambda>i useEndstops s. Inr (s\<lparr>time := Finite 1\<rparr>))
     [\<lparr>index = 0, time = NaN, direction = StepBackward\<rparr>,
      \<lparr>index = 1, time = Finite 0, direction = StepBackward\<rparr>] True () [0, 0] ()
   = Inr [\<lparr>index = 0, time = Finite 1, direction = StepForward\<rparr>,
          \<lparr>index = 1, time = Finite 1, direction = StepForward\<rparr>]
   \<and> initAxisArcSteppers
       (\<lambda>i (m :: unit) p (c :: unit) (u :: unit) (v :: unit) r av ev s. s\<lparr>direction := StepBackward\<rparr>)
       (\<lambda>i useEndstops s. Inr (s\<lparr>time := Finite 1\<rparr>))
       [\<lparr>index = 0, time = NaN, direction = StepForward\<rparr>,
        \<lparr>index = 1, time = Finite 0, direction = StepForward\<rparr>] True () [0, 0]
       () () () (Finite 1) (Finite 1) (Finite 0)
     = Inr [\<lparr>index = 0, time = Finite 1, direction = StepBackward\<rparr>,
            \<lparr>index = 1, time = Finite 1, direction = StepBackward\<rparr>]"
  using initAxisSteppers_every_axis
    [where steppers = "[\<lparr>index = 0, time = NaN, direction = StepBackward\<rparr>,
                        \<lparr>index = 1, time = Finite 0, direction = StepBackward\<rparr>]"
       and step = "\<lambda>i useEndstops s. Inr (s\<lparr>time := Finite 1\<rparr>)"
       and useEndstops = True
       and beginLine = "\<lambda>i (m :: unit) p (vel :: unit) s. s\<lparr>direction := StepForward\<rparr>"
       and cmap = "()" and curPos = "[0, 0]" and vel = "()"
       and l = "\<lambda>i. \<lparr>index = int i, time = Finite 1, direction = StepForward\<rparr>"
       and beginArc = "\<lambda>i (m :: unit) p (c :: unit) (u :: unit) (v :: unit) r av ev s.
                         s\<lparr>direction := StepForward\<rparr>"
       and a = "\<lambda>i. \<lparr>index = int i, time = Finite 1, direction = StepForward\<rparr>"]
    initAxisSteppers_every_axis
    [where steppers = "[\<lparr>index = 0, time = NaN, direction = StepForward\<rparr>,
                        \<lparr>index = 1, time = Finite 0, direction = StepForward\<rparr>]"
       and step = "\<lambda>i useEndstops s. Inr (s\<lparr>time := Finite 1\<rparr>)"
       and useEndstops = True
       and beginLine = "\<lambda>i (m :: unit) p (vel :: unit) s. s\<lparr>direction := StepBackward\<rparr>"
       and cmap = "()" and curPos = "[0, 0]" and vel = "()"
       and l = "\<lambda>i. \<lparr>index = int i, time = Finite 1, direction = StepBackward\<rparr>"
       and beginArc = "\<lambda>i (m :: unit) p (c :: unit) (u :: unit) (v :: unit) r av ev s.
                         s\<lparr>direction := StepBackward\<rparr>"
       and center = "()" and u = "()" and v = "()"
       and arcRad = "Finite 1" and arcVel = "Finite 1" and extVel = "Finite 0"
       and a = "\<lambda>i. \<lparr>index = int i, time = Finite 1, direction = StepBackward\<rparr>"]
  by (simp add: less_Suc_eq)

section \<open>The scheduler returns the requested time\<close>

text \<open>
  C9. \<open>schedTime\<close> of the dumb hardware scheduler returns the requested time itself,
  which is in particular a time at or after the requested one.
\<close>

theorem schedTime_identity: "schedTime t = t \<and> t \<le> schedTime t"
  by (simp add: schedTime_def)

end
